theory Spec2Isabelle
  imports Complex_Main "HOL-Library.Char_ord" "HOL-Library.List_Lexorder" "HOL-Library.Multiset"
begin

section \<open>Data model\<close>

text \<open>
  One row of \<^verbatim>\<open>spacex_launch_dash.csv\<close>, restricted to the four columns the program reads:
  \<^verbatim>\<open>"Launch Site"\<close>, \<^verbatim>\<open>"Payload Mass (kg)"\<close>, \<^verbatim>\<open>"class"\<close> and
  \<^verbatim>\<open>"Booster Version Category"\<close>. The payload column is numeric and is only ever compared,
  never computed with, so it is a \<open>real\<close>; the class column is an integer column (the file is
  expected to hold 0 and 1 there, which is the predicate \<open>binary_class\<close> below, not a property
  of the type). Cells are never missing: \<^verbatim>\<open>read_csv\<close> would turn a missing cell into NaN, which
  the dataset is assumed not to contain.
\<close>

record launch_record =
  launch_site :: string
  payload_mass :: real
  outcome_class :: int
  booster_version_category :: string

type_synonym dataframe = "launch_record list"

definition binary_class :: "dataframe \<Rightarrow> bool" where
  "binary_class df = list_all (\<lambda>r. outcome_class r = 0 \<or> outcome_class r = 1) df"

datatype error = ValueError | NameError

text \<open>
  \<^verbatim>\<open>Series.unique()\<close> and the hash tables behind \<^verbatim>\<open>value_counts\<close> keep the distinct values
  in order of first appearance.
\<close>

definition unique :: "'a list \<Rightarrow> 'a list" where
  "unique xs = fold (\<lambda>x acc. if x \<in> set acc then acc else acc @ [x]) xs []"

section \<open>Dataset loader and layout\<close>

definition CSV_PATH :: string where
  "CSV_PATH = ''spacex_launch_dash.csv''"

text \<open>
  \<^verbatim>\<open>Series.min()\<close> and \<^verbatim>\<open>Series.max()\<close>; on a column without rows pandas answers NaN,
  which is \<open>None\<close> here.
\<close>

definition col_min :: "real list \<Rightarrow> real option" where
  "col_min xs = (case xs of [] \<Rightarrow> None | x # rest \<Rightarrow> Some (fold min rest x))"

definition col_max :: "real list \<Rightarrow> real option" where
  "col_max xs = (case xs of [] \<Rightarrow> None | x # rest \<Rightarrow> Some (fold max rest x))"

text \<open>
  The components of \<^verbatim>\<open>app.layout\<close> that carry data: the \<^verbatim>\<open>site-dropdown\<close> with its options
  (label, value) and initial value, and the \<^verbatim>\<open>payload-slider\<close> with its bounds, step and initial
  value. Styling, marks, placeholder and tooltip are presentation only and are left out.
\<close>

record dropdown =
  dropdown_options :: "(string \<times> string) list"
  dropdown_value :: string

record range_slider =
  slider_min :: int
  slider_max :: int
  slider_step :: int
  slider_value :: "real option list"

record app =
  app_df :: dataframe
  pmin :: "real option"
  pmax :: "real option"
  site_dropdown :: dropdown
  payload_slider :: range_slider

definition site_options :: "dataframe \<Rightarrow> (string \<times> string) list" where
  "site_options df =
     [(''All Sites'', ''ALL'')] @ map (\<lambda>s. (s, s)) (sort (unique (map launch_site df)))"

definition build_app :: "dataframe \<Rightarrow> app" where
  "build_app df =
     (let lo = col_min (map payload_mass df);
          hi = col_max (map payload_mass df)
      in \<lparr>app_df = df, pmin = lo, pmax = hi,
          site_dropdown = \<lparr>dropdown_options = site_options df, dropdown_value = ''ALL''\<rparr>,
          payload_slider = \<lparr>slider_min = 0, slider_max = 10000, slider_step = 1000,
                            slider_value = [lo, hi]\<rparr>\<rparr>)"

text \<open>
  The module body, run top to bottom against a file system \<open>fs\<close> that maps a path to the table
  stored there. The result is the list of effects performed, in order, and how the process ends
  up: \<^verbatim>\<open>sys.exit(message)\<close> with a string argument prints the message and exits with status 1;
  otherwise the application is built and served.
\<close>

datatype effect = Path_exists string | Read_csv string | App_run string nat

datatype process = SystemExit string | Running app

definition exit_status :: "process \<Rightarrow> nat option" where
  "exit_status p = (case p of SystemExit msg \<Rightarrow> Some 1 | Running a \<Rightarrow> None)"

definition main :: "(string \<rightharpoonup> dataframe) \<Rightarrow> effect list \<times> process" where
  "main fs =
     (case fs CSV_PATH of
        None \<Rightarrow>
          ([Path_exists CSV_PATH],
           SystemExit (''ERROR: '' @ [CHR 0x27] @ CSV_PATH @ [CHR 0x27] @
                       '' not found in the current folder.''))
      | Some df \<Rightarrow>
          ([Path_exists CSV_PATH, Read_csv CSV_PATH, App_run ''0.0.0.0'' 8050],
           Running (build_app df)))"

section \<open>Pie aggregator\<close>

text \<open>
  A cell of a frame handed to the pie chart: text or an integer. \<open>frame_of\<close> is the view of the
  dataset that \<^verbatim>\<open>px.pie\<close> reads its columns from by name (the payload column plays no part in
  the pie and is not in this view).
\<close>

datatype cell = Str string | Num int

type_synonym frame = "(string \<times> cell list) list"

definition frame_of :: "dataframe \<Rightarrow> frame" where
  "frame_of df =
     [(''Launch Site'', map (\<lambda>r. Str (launch_site r)) df),
      (''class'', map (\<lambda>r. Num (outcome_class r)) df),
      (''Booster Version Category'', map (\<lambda>r. Str (booster_version_category r)) df)]"

text \<open>
  \<^verbatim>\<open>Series.value_counts()\<close> names its result differently across pandas releases: before 2.0
  the result carries the name of the counted series and an unnamed index; from 2.0 on it is named
  \<^verbatim>\<open>count\<close> and the index carries the name of the counted series. The program's
  \<^verbatim>\<open>rename(columns={"index": ..., "class": ...})\<close> addresses the names of the first convention.
\<close>

datatype pandas_api = Before_2_0 | Since_2_0

record series =
  s_name :: string
  s_index_name :: "string option"
  s_entries :: "(cell \<times> int) list"

text \<open>Distinct values with their number of occurrences, most frequent first (stable).\<close>

definition value_counts :: "pandas_api \<Rightarrow> string \<Rightarrow> int list \<Rightarrow> series" where
  "value_counts api name xs =
     \<lparr>s_name = (case api of Before_2_0 \<Rightarrow> name | Since_2_0 \<Rightarrow> ''count''),
      s_index_name = (case api of Before_2_0 \<Rightarrow> None | Since_2_0 \<Rightarrow> Some name),
      s_entries = sort_key (\<lambda>(v, c). - c)
                    (map (\<lambda>v. (Num v, int (count_list xs v))) (unique xs))\<rparr>"

text \<open>\<^verbatim>\<open>rename\<close> with a dictionary replaces the names it lists and leaves the others alone.\<close>

definition renamed :: "('a \<times> 'a) list \<Rightarrow> 'a \<Rightarrow> 'a" where
  "renamed d x = (case map_of d x of None \<Rightarrow> x | Some y \<Rightarrow> y)"

definition rename_index :: "(cell \<times> cell) list \<Rightarrow> series \<Rightarrow> series" where
  "rename_index d s = s\<lparr>s_entries := map (\<lambda>(i, c). (renamed d i, c)) (s_entries s)\<rparr>"

definition reset_index :: "series \<Rightarrow> frame" where
  "reset_index s =
     [(case s_index_name s of None \<Rightarrow> ''index'' | Some n \<Rightarrow> n, map fst (s_entries s)),
      (s_name s, map (\<lambda>(i, c). Num c) (s_entries s))]"

definition rename_columns :: "(string \<times> string) list \<Rightarrow> frame \<Rightarrow> frame" where
  "rename_columns d f = map (\<lambda>(n, col). (renamed d n, col)) f"

record pie_figure =
  labels :: "cell list"
  vals :: "cell list"
  pie_title :: string

text \<open>
  \<^verbatim>\<open>px.pie(data_frame, values=..., names=..., title=...)\<close>: both arguments must name a column
  of the frame; the trace gets the two columns row by row.
\<close>

definition px_pie :: "frame \<Rightarrow> string \<Rightarrow> string \<Rightarrow> string \<Rightarrow> error + pie_figure" where
  "px_pie data_frame values_col names_col ttl =
     (case (map_of data_frame values_col, map_of data_frame names_col) of
        (Some vs, Some ls) \<Rightarrow> Inr \<lparr>labels = ls, vals = vs, pie_title = ttl\<rparr>
      | _ \<Rightarrow> Inl ValueError)"

text \<open>
  What the pie trace shows: rows with the same label form one slice whose value is the sum of
  their values; slices appear in order of first appearance of their label; a row whose value is
  not a number contributes nothing (\<open>pie_groups\<close>). A label whose values add up to a negative
  number gets no slice; one whose values add up to zero keeps its slice, of value zero
  (\<open>pie_slices\<close>). (The drawing order of the slices, by size, is presentation.)
\<close>

fun bump :: "cell \<Rightarrow> int \<Rightarrow> (cell \<times> int) list \<Rightarrow> (cell \<times> int) list" where
  "bump l v [] = [(l, v)]"
| "bump l v ((k, s) # rest) = (if k = l then (k, s + v) # rest else (k, s) # bump l v rest)"

definition add_row :: "cell \<times> cell \<Rightarrow> (cell \<times> int) list \<Rightarrow> (cell \<times> int) list" where
  "add_row p acc = (case snd p of Num v \<Rightarrow> bump (fst p) v acc | Str t \<Rightarrow> acc)"

definition pie_groups :: "pie_figure \<Rightarrow> (cell \<times> int) list" where
  "pie_groups fig = fold add_row (zip (labels fig) (vals fig)) []"

definition pie_slices :: "pie_figure \<Rightarrow> (cell \<times> int) list" where
  "pie_slices fig = filter (\<lambda>p. 0 \<le> snd p) (pie_groups fig)"

text \<open>
  \<^verbatim>\<open>update_pie(selected_site)\<close>, with the module global \<open>df\<close> and the pandas convention as
  explicit arguments.
\<close>

definition update_pie :: "pandas_api \<Rightarrow> dataframe \<Rightarrow> string \<Rightarrow> error + pie_figure" where
  "update_pie api df selected_site =
     (if selected_site = ''ALL''
      then px_pie (frame_of df) ''class'' ''Launch Site'' ''Total Successful Launches by Site''
      else
        (let site_df = filter (\<lambda>r. launch_site r = selected_site) df;
             outcome =
               rename_columns [(''index'', ''Outcome''), (''class'', ''Count'')]
                 (reset_index
                    (rename_index [(Num 0, Str ''Failure''), (Num 1, Str ''Success'')]
                       (value_counts api ''class'' (map outcome_class site_df))))
         in px_pie outcome ''Count'' ''Outcome'' (''Launch Outcomes for '' @ selected_site)))"

section \<open>Scatter projector\<close>

record scatter_point =
  pt_x :: real
  pt_y :: int
  pt_color :: string
  pt_hover :: string

record scatter_figure =
  points :: "scatter_point list"
  scatter_title :: string

text \<open>
  \<^verbatim>\<open>px.scatter(data, x="Payload Mass (kg)", y="class", color="Booster Version Category",
  hover_data=["Launch Site"], ...)\<close>: one marker per row of \<open>data\<close>, in row order. (The
  colour channel splits the markers into one trace per booster category when the figure is drawn;
  the markers themselves are the rows.)
\<close>

definition scatter_point_of :: "launch_record \<Rightarrow> scatter_point" where
  "scatter_point_of r =
     \<lparr>pt_x = payload_mass r, pt_y = outcome_class r,
      pt_color = booster_version_category r, pt_hover = launch_site r\<rparr>"

definition px_scatter :: "dataframe \<Rightarrow> string \<Rightarrow> scatter_figure" where
  "px_scatter data ttl = \<lparr>points = map scatter_point_of data, scatter_title = ttl\<rparr>"

text \<open>
  \<^verbatim>\<open>update_scatter(selected_site, payload_range)\<close>, with the module global \<open>df\<close> as an
  explicit argument. \<^verbatim>\<open>lo, hi = payload_range\<close> raises unless the value has exactly two
  elements.
\<close>

definition update_scatter :: "dataframe \<Rightarrow> string \<Rightarrow> real list \<Rightarrow> error + scatter_figure" where
  "update_scatter df selected_site payload_range =
     (case payload_range of
        [lo, hi] \<Rightarrow>
          (let data = filter (\<lambda>r. payload_mass r \<ge> lo \<and> payload_mass r \<le> hi) df;
               data = (if selected_site \<noteq> ''ALL''
                       then filter (\<lambda>r. launch_site r = selected_site) data else data)
           in Inr (px_scatter data
                 (if selected_site = ''ALL''
                  then ''Correlation between Payload and Success for All Sites''
                  else ''Correlation between Payload and Success for '' @ selected_site)))
      | _ \<Rightarrow> Inl ValueError)"

section \<open>Callback wiring\<close>

text \<open>
  The two \<^verbatim>\<open>@app.callback\<close> registrations: each output with the inputs that trigger it. A
  request names the input that changed and carries the current value of both selectors; every
  callback that lists the changed input is run and answers with its figure.
\<close>

datatype input_prop = Site_dropdown_value | Payload_slider_value

datatype output_prop = Success_pie_chart | Success_payload_scatter_chart

record filter_state =
  selected_site :: string
  payload_range :: "real list"

datatype figure = Pie_figure "error + pie_figure" | Scatter_figure "error + scatter_figure"

definition callback_inputs :: "output_prop \<Rightarrow> input_prop list" where
  "callback_inputs out =
     (case out of
        Success_pie_chart \<Rightarrow> [Site_dropdown_value]
      | Success_payload_scatter_chart \<Rightarrow> [Site_dropdown_value, Payload_slider_value])"

definition run_callback :: "pandas_api \<Rightarrow> dataframe \<Rightarrow> output_prop \<Rightarrow> filter_state \<Rightarrow> figure" where
  "run_callback api df out fs =
     (case out of
        Success_pie_chart \<Rightarrow> Pie_figure (update_pie api df (selected_site fs))
      | Success_payload_scatter_chart \<Rightarrow>
          Scatter_figure (update_scatter df (selected_site fs) (payload_range fs)))"

definition triggered :: "input_prop \<Rightarrow> output_prop list" where
  "triggered changed =
     filter (\<lambda>out. changed \<in> set (callback_inputs out))
       [Success_pie_chart, Success_payload_scatter_chart]"

definition handle ::
  "pandas_api \<Rightarrow> dataframe \<Rightarrow> input_prop \<times> filter_state \<Rightarrow> (output_prop \<times> figure) list" where
  "handle api df req =
     map (\<lambda>out. (out, run_callback api df out (snd req))) (triggered (fst req))"

section \<open>The running server and its store\<close>

text \<open>
  In the running process a frame is an object and a name refers to an object. The store holds
  the frame objects in order of creation (an address is a position in the list) and the binding
  of the module global \<open>df\<close>. Boolean indexing \<^verbatim>\<open>frame[mask]\<close> creates a new frame object
  from its operand; the series and small frames built by \<^verbatim>\<open>value_counts\<close>, \<^verbatim>\<open>rename\<close> and
  \<^verbatim>\<open>reset_index\<close> are new values that refer to no frame of the store. Reading a name that
  refers to nothing is Python's \<^verbatim>\<open>NameError\<close>.
\<close>

record store =
  frames :: "dataframe list"
  df_ref :: nat

definition deref :: "store \<Rightarrow> nat \<Rightarrow> dataframe option" where
  "deref st a = (if a < length (frames st) then Some (frames st ! a) else None)"

definition getitem :: "(launch_record \<Rightarrow> bool) \<Rightarrow> nat \<Rightarrow> store \<Rightarrow> (nat \<times> store) option" where
  "getitem keep a st =
     (case deref st a of
        None \<Rightarrow> None
      | Some fr \<Rightarrow> Some (length (frames st), st\<lparr>frames := frames st @ [filter keep fr]\<rparr>))"

definition initial_store :: "dataframe \<Rightarrow> store" where
  "initial_store df = \<lparr>frames = [df], df_ref = 0\<rparr>"

definition dataset :: "store \<Rightarrow> dataframe option" where
  "dataset st = deref st (df_ref st)"

text \<open>
  \<open>extends st st'\<close>: every object of \<open>st\<close> is still there, unchanged, in \<open>st'\<close>, and \<open>df\<close>
  is bound as before.
\<close>

definition extends :: "store \<Rightarrow> store \<Rightarrow> bool" where
  "extends st st' =
     (df_ref st' = df_ref st \<and> take (length (frames st)) (frames st') = frames st)"

text \<open>
  The two callbacks statement by statement over the store: \<open>site_df\<close> and \<open>data\<close> are local
  names bound to the objects that the indexing creates (the arguments are written \<open>sel_site\<close>
  and \<open>pay_range\<close> here).
\<close>

definition update_pie_st :: "pandas_api \<Rightarrow> string \<Rightarrow> store \<Rightarrow> (error + pie_figure) \<times> store" where
  "update_pie_st api sel_site st =
     (if sel_site = ''ALL''
      then
        (case deref st (df_ref st) of
           None \<Rightarrow> (Inl NameError, st)
         | Some fr \<Rightarrow>
             (px_pie (frame_of fr) ''class'' ''Launch Site''
                ''Total Successful Launches by Site'', st))
      else
        (case getitem (\<lambda>r. launch_site r = sel_site) (df_ref st) st of
           None \<Rightarrow> (Inl NameError, st)
         | Some (site_df, st1) \<Rightarrow>
             (case deref st1 site_df of
                None \<Rightarrow> (Inl NameError, st1)
              | Some fr \<Rightarrow>
                  (px_pie
                     (rename_columns [(''index'', ''Outcome''), (''class'', ''Count'')]
                        (reset_index
                           (rename_index [(Num 0, Str ''Failure''), (Num 1, Str ''Success'')]
                              (value_counts api ''class'' (map outcome_class fr)))))
                     ''Count'' ''Outcome'' (''Launch Outcomes for '' @ sel_site), st1))))"

definition update_scatter_st ::
  "string \<Rightarrow> real list \<Rightarrow> store \<Rightarrow> (error + scatter_figure) \<times> store" where
  "update_scatter_st sel_site pay_range st =
     (case pay_range of
        [lo, hi] \<Rightarrow>
          (case getitem (\<lambda>r. payload_mass r \<ge> lo \<and> payload_mass r \<le> hi) (df_ref st) st of
             None \<Rightarrow> (Inl NameError, st)
           | Some (data, st1) \<Rightarrow>
               (case (if sel_site \<noteq> ''ALL''
                      then getitem (\<lambda>r. launch_site r = sel_site) data st1
                      else Some (data, st1)) of
                  None \<Rightarrow> (Inl NameError, st1)
                | Some (data', st2) \<Rightarrow>
                    (case deref st2 data' of
                       None \<Rightarrow> (Inl NameError, st2)
                     | Some fr \<Rightarrow>
                         (Inr (px_scatter fr
                            (if sel_site = ''ALL''
                             then ''Correlation between Payload and Success for All Sites''
                             else ''Correlation between Payload and Success for '' @ sel_site)),
                          st2))))
      | _ \<Rightarrow> (Inl ValueError, st))"

text \<open>
  The server: each request runs the triggered callbacks one after the other on the store the
  previous one left, and the next request starts from the store the last one left.
\<close>

definition run_callback_st ::
  "pandas_api \<Rightarrow> output_prop \<Rightarrow> filter_state \<Rightarrow> store \<Rightarrow> figure \<times> store" where
  "run_callback_st api out fs st =
     (case out of
        Success_pie_chart \<Rightarrow>
          (case update_pie_st api (selected_site fs) st of (res, st') \<Rightarrow> (Pie_figure res, st'))
      | Success_payload_scatter_chart \<Rightarrow>
          (case update_scatter_st (selected_site fs) (payload_range fs) st of
             (res, st') \<Rightarrow> (Scatter_figure res, st')))"

fun run_callbacks ::
  "pandas_api \<Rightarrow> output_prop list \<Rightarrow> filter_state \<Rightarrow> store
     \<Rightarrow> (output_prop \<times> figure) list \<times> store" where
  "run_callbacks api [] fs st = ([], st)"
| "run_callbacks api (out # outs) fs st =
     (case run_callback_st api out fs st of
        (fig, st1) \<Rightarrow>
          (case run_callbacks api outs fs st1 of (rs, st2) \<Rightarrow> ((out, fig) # rs, st2)))"

fun serve ::
  "pandas_api \<Rightarrow> (input_prop \<times> filter_state) list \<Rightarrow> store
     \<Rightarrow> (output_prop \<times> figure) list list \<times> store" where
  "serve api [] st = ([], st)"
| "serve api (req # reqs) st =
     (case run_callbacks api (triggered (fst req)) (snd req) st of
        (resp, st1) \<Rightarrow>
          (case serve api reqs st1 of (resps, st2) \<Rightarrow> (resp # resps, st2)))"

section \<open>Sample data\<close>

definition rec_a1 :: launch_record where
  "rec_a1 = \<lparr>launch_site = ''SiteA'', payload_mass = 500, outcome_class = 1,
             booster_version_category = ''FT''\<rparr>"

definition rec_a2 :: launch_record where
  "rec_a2 = \<lparr>launch_site = ''SiteA'', payload_mass = 5000, outcome_class = 0,
             booster_version_category = ''v1.1''\<rparr>"

definition rec_b1 :: launch_record where
  "rec_b1 = \<lparr>launch_site = ''SiteB'', payload_mass = 6000, outcome_class = 1,
             booster_version_category = ''B4''\<rparr>"

definition rec_a3 :: launch_record where
  "rec_a3 = \<lparr>launch_site = ''SiteA'', payload_mass = 100, outcome_class = 1,
             booster_version_category = ''FT''\<rparr>"

definition sample_df :: dataframe where
  "sample_df = [rec_a1, rec_a2, rec_b1, rec_a3]"

definition spec_df :: dataframe where
  "spec_df = [rec_a1, rec_a2, rec_b1]"

section \<open>Facts about the sample data\<close>

lemma sample_simps:
  "launch_site rec_a1 = ''SiteA''" "payload_mass rec_a1 = 500" "outcome_class rec_a1 = 1"
  "launch_site rec_a2 = ''SiteA''" "payload_mass rec_a2 = 5000" "outcome_class rec_a2 = 0"
  "launch_site rec_b1 = ''SiteB''" "payload_mass rec_b1 = 6000" "outcome_class rec_b1 = 1"
  "launch_site rec_a3 = ''SiteA''" "payload_mass rec_a3 = 100" "outcome_class rec_a3 = 1"
  by (simp_all add: rec_a1_def rec_a2_def rec_b1_def rec_a3_def)

section \<open>Properties of the scatter projector\<close>

text \<open>
  On a two-element range the projector never fails, and the two filters of the source collapse
  into one: the rows kept are those within the range that also pass the site test.
\<close>

lemma update_scatter_pair:
  "update_scatter df s [lo, hi] =
     Inr (px_scatter
            (filter (\<lambda>r. lo \<le> payload_mass r \<and> payload_mass r \<le> hi \<and>
                          (s = ''ALL'' \<or> launch_site r = s)) df)
            (if s = ''ALL''
             then ''Correlation between Payload and Success for All Sites''
             else ''Correlation between Payload and Success for '' @ s))"
  by (simp add: update_scatter_def Let_def conj_commute conj_left_commute)

text \<open>
  C3. For every payload range \<open>[lo, hi]\<close> and every dataset, each point of the scatter output
  has its payload between \<open>lo\<close> and \<open>hi\<close>; a record whose payload is exactly \<open>lo\<close> or exactly
  \<open>hi\<close> is included when it passes the site filter (the range being a proper one,
  \<open>lo \<le> hi\<close>); a record whose payload is below \<open>lo\<close> or above \<open>hi\<close> is excluded.
\<close>

theorem scatter_range_inclusive:
  "\<exists>fig. update_scatter df s [lo, hi] = Inr fig
     \<and> (\<forall>p \<in> set (points fig). lo \<le> pt_x p \<and> pt_x p \<le> hi)
     \<and> (\<forall>r \<in> set df. lo \<le> hi \<and> (payload_mass r = lo \<or> payload_mass r = hi)
            \<and> (s = ''ALL'' \<or> launch_site r = s) \<longrightarrow> scatter_point_of r \<in> set (points fig))
     \<and> (\<forall>r \<in> set df. payload_mass r < lo \<or> hi < payload_mass r
            \<longrightarrow> scatter_point_of r \<notin> set (points fig))"
  unfolding update_scatter_pair
  by (auto simp: px_scatter_def scatter_point_of_def)

theorem scatter_range_inclusive_witness:
  "\<exists>fig. update_scatter sample_df ''ALL'' [500, 5000] = Inr fig
     \<and> scatter_point_of rec_a1 \<in> set (points fig)
     \<and> scatter_point_of rec_a2 \<in> set (points fig)
     \<and> scatter_point_of rec_b1 \<notin> set (points fig)
     \<and> scatter_point_of rec_a3 \<notin> set (points fig)"
  using scatter_range_inclusive [of sample_df "''ALL''" 500 5000]
  by (auto simp: sample_df_def sample_simps)

text \<open>
  C4. For a concrete site together with a payload range, the scatter output is exactly the
  records that satisfy both predicates, in dataset order: every point lies in the range and
  belongs to the site, every record satisfying both appears, and no record failing either does.
\<close>

theorem scatter_site_and_range:
  assumes "s \<noteq> ''ALL''"
  shows "\<exists>fig. update_scatter df s [lo, hi] = Inr fig
     \<and> points fig = map scatter_point_of
          (filter (\<lambda>r. lo \<le> payload_mass r \<and> payload_mass r \<le> hi \<and> launch_site r = s) df)
     \<and> (\<forall>p \<in> set (points fig). lo \<le> pt_x p \<and> pt_x p \<le> hi \<and> pt_hover p = s)
     \<and> (\<forall>r \<in> set df. lo \<le> payload_mass r \<and> payload_mass r \<le> hi \<and> launch_site r = s
            \<longrightarrow> scatter_point_of r \<in> set (points fig))
     \<and> (\<forall>r \<in> set df. \<not> (lo \<le> payload_mass r \<and> payload_mass r \<le> hi \<and> launch_site r = s)
            \<longrightarrow> scatter_point_of r \<notin> set (points fig))"
  unfolding update_scatter_pair using assms
  by (auto simp: px_scatter_def scatter_point_of_def)

theorem scatter_site_and_range_witness:
  "''SiteA'' \<noteq> ''ALL'' \<and> (\<exists>fig. update_scatter sample_df ''SiteA'' [100, 5500] = Inr fig
     \<and> points fig = map scatter_point_of [rec_a1, rec_a2, rec_a3]
     \<and> scatter_point_of rec_b1 \<notin> set (points fig))"
  using scatter_site_and_range [of "''SiteA''" sample_df 100 5500]
  by (auto simp: sample_df_def sample_simps)

section \<open>Auxiliary facts: distinct values and slice accumulation\<close>

lemma unique_fold_set:
  "set (fold (\<lambda>x acc. if x \<in> set acc then acc else acc @ [x]) xs acc) = set acc \<union> set xs"
  by (induction xs arbitrary: acc) auto

lemma unique_fold_distinct:
  "distinct acc \<Longrightarrow> distinct (fold (\<lambda>x acc. if x \<in> set acc then acc else acc @ [x]) xs acc)"
  by (induction xs arbitrary: acc) auto

lemma set_unique: "set (unique xs) = set xs"
  by (simp add: unique_def unique_fold_set)

lemma distinct_unique: "distinct (unique xs)"
  by (simp add: unique_def unique_fold_distinct)

lemma map_of_bump:
  "map_of (bump l v acc) k =
     (if k = l then Some ((case map_of acc l of None \<Rightarrow> 0 | Some s \<Rightarrow> s) + v) else map_of acc k)"
  by (induction l v acc rule: bump.induct) auto

lemma keys_bump: "fst ` set (bump l v acc) = insert l (fst ` set acc)"
  by (induction l v acc rule: bump.induct) auto

lemma distinct_bump: "distinct (map fst acc) \<Longrightarrow> distinct (map fst (bump l v acc))"
proof (induction l v acc rule: bump.induct)
  case (1 l v)
  then show ?case by simp
next
  case (2 l v k s rest)
  have "fst ` set (bump l v rest) = insert l (fst ` set rest)" by (rule keys_bump)
  with 2 show ?case by auto
qed

lemma sum_bump: "sum_list (map snd (bump l v acc)) = sum_list (map snd acc) + v"
  by (induction l v acc rule: bump.induct) auto

lemma fold_add_row_Num:
  "fold add_row (map (\<lambda>p. (fst p, Num (snd p))) prs) acc = fold (\<lambda>p. bump (fst p) (snd p)) prs acc"
  by (induction prs arbitrary: acc) (auto simp: add_row_def)

lemma keys_fold_bump:
  "fst ` set (fold (\<lambda>p. bump (fst p) (snd p)) prs acc) = fst ` set acc \<union> fst ` set prs"
  by (induction prs arbitrary: acc) (auto simp: keys_bump)

lemma distinct_fold_bump:
  "distinct (map fst acc) \<Longrightarrow> distinct (map fst (fold (\<lambda>p. bump (fst p) (snd p)) prs acc))"
  by (induction prs arbitrary: acc) (auto simp: distinct_bump)

lemma sum_fold_bump:
  "sum_list (map snd (fold (\<lambda>p. bump (fst p) (snd p)) prs acc))
     = sum_list (map snd acc) + sum_list (map snd prs)"
  by (induction prs arbitrary: acc) (auto simp: sum_bump)

lemma map_of_fold_bump:
  "map_of (fold (\<lambda>p. bump (fst p) (snd p)) prs acc) k =
     (if k \<in> fst ` set acc \<union> fst ` set prs
      then Some ((case map_of acc k of None \<Rightarrow> 0 | Some s \<Rightarrow> s)
                 + sum_list (map snd (filter (\<lambda>p. fst p = k) prs)))
      else None)"
proof (induction prs arbitrary: acc)
  case Nil
  show ?case by (cases "map_of acc k") (force simp: map_of_eq_None_iff dest: map_of_SomeD)+
next
  case (Cons p prs)
  show ?case
    by (cases "map_of acc k") (force simp: Cons.IH keys_bump map_of_bump map_of_eq_None_iff dest: map_of_SomeD)+
qed

lemma bump_nonneg:
  "0 \<le> v \<Longrightarrow> list_all (\<lambda>p. 0 \<le> snd p) acc \<Longrightarrow> list_all (\<lambda>p. 0 \<le> snd p) (bump l v acc)"
  by (induction l v acc rule: bump.induct) simp_all

lemma fold_bump_nonneg:
  "list_all (\<lambda>p. 0 \<le> snd p) prs \<Longrightarrow> list_all (\<lambda>p. 0 \<le> snd p) acc
     \<Longrightarrow> list_all (\<lambda>p. 0 \<le> snd p) (fold (\<lambda>p. bump (fst p) (snd p)) prs acc)"
  by (induction prs arbitrary: acc) (simp_all add: bump_nonneg)

lemma filter_all: "list_all P xs \<Longrightarrow> filter P xs = xs"
  by (induction xs) simp_all

lemma slices_of_nonneg_rows:
  "list_all (\<lambda>p. 0 \<le> snd p) prs \<Longrightarrow>
     filter (\<lambda>p. 0 \<le> snd p) (fold (\<lambda>p. bump (fst p) (snd p)) prs [])
       = fold (\<lambda>p. bump (fst p) (snd p)) prs []"
  by (rule filter_all, rule fold_bump_nonneg) simp_all

section \<open>Properties of the pie aggregator\<close>

text \<open>For the sentinel the figure holds the site and class columns of the whole dataset.\<close>

lemma update_pie_all:
  "update_pie api df ''ALL'' =
     Inr \<lparr>labels = map (\<lambda>r. Str (launch_site r)) df,
          vals = map (\<lambda>r. Num (outcome_class r)) df,
          pie_title = ''Total Successful Launches by Site''\<rparr>"
  by (simp add: update_pie_def px_pie_def frame_of_def)

lemma pie_groups_all:
  "pie_groups \<lparr>labels = map (\<lambda>r. Str (launch_site r)) df,
               vals = map (\<lambda>r. Num (outcome_class r)) df, pie_title = t\<rparr>
     = fold (\<lambda>p. bump (fst p) (snd p)) (map (\<lambda>r. (Str (launch_site r), outcome_class r)) df) []"
proof -
  have "zip (map (\<lambda>r. Str (launch_site r)) df) (map (\<lambda>r. Num (outcome_class r)) df)
          = map (\<lambda>p. (fst p, Num (snd p))) (map (\<lambda>r. (Str (launch_site r), outcome_class r)) df)"
    by (induction df) auto
  then show ?thesis
    by (simp only: pie_groups_def pie_figure.simps fold_add_row_Num)
qed

lemma binary_rows_nonneg:
  "binary_class df \<Longrightarrow>
     list_all (\<lambda>p. 0 \<le> snd p) (map (\<lambda>r. (Str (launch_site r), outcome_class r)) df)"
  by (induction df) (auto simp: binary_class_def)

lemma pie_slices_all:
  assumes "binary_class df"
  shows "pie_slices \<lparr>labels = map (\<lambda>r. Str (launch_site r)) df,
               vals = map (\<lambda>r. Num (outcome_class r)) df, pie_title = t\<rparr>
     = fold (\<lambda>p. bump (fst p) (snd p)) (map (\<lambda>r. (Str (launch_site r), outcome_class r)) df) []"
  by (simp only: pie_slices_def pie_groups_all slices_of_nonneg_rows [OF binary_rows_nonneg [OF assms]])

lemma binary_sum_count:
  "binary_class df \<Longrightarrow>
     sum_list (map outcome_class (filter P df)) = int (length (filter (\<lambda>r. P r \<and> outcome_class r = 1) df))"
  by (induction df) (auto simp: binary_class_def)

text \<open>
  C1. For the selection \<open>ALL\<close> on a dataset whose class column holds only 0 and 1, the pie
  has one slice per launch site of the dataset, the value of a site's slice is the number of
  that site's records with class 1, and the slice values add up to the number of records with
  class 1 in the whole dataset.
\<close>

theorem pie_all_sites_sums_successes:
  assumes "binary_class df"
  shows "\<exists>fig. update_pie api df ''ALL'' = Inr fig
     \<and> distinct (map fst (pie_slices fig))
     \<and> fst ` set (pie_slices fig) = (\<lambda>r. Str (launch_site r)) ` set df
     \<and> sum_list (map snd (pie_slices fig)) = int (length (filter (\<lambda>r. outcome_class r = 1) df))
     \<and> (\<forall>r \<in> set df. map_of (pie_slices fig) (Str (launch_site r)) =
           Some (int (length (filter (\<lambda>q. launch_site q = launch_site r \<and> outcome_class q = 1) df))))"
proof -
  let ?prs = "map (\<lambda>r. (Str (launch_site r), outcome_class r)) df"
  let ?sl = "fold (\<lambda>p. bump (fst p) (snd p)) ?prs []"
  have d: "distinct (map fst ?sl)" by (rule distinct_fold_bump) simp
  have k: "fst ` set ?sl = (\<lambda>r. Str (launch_site r)) ` set df"
    by (simp add: keys_fold_bump image_image)
  have "sum_list (map snd ?sl) = sum_list (map outcome_class (filter (\<lambda>r. True) df))"
    by (simp add: sum_fold_bump comp_def)
  also have "\<dots> = int (length (filter (\<lambda>r. outcome_class r = 1) df))"
    using binary_sum_count [OF assms, of "\<lambda>r. True"] by simp
  finally have t: "sum_list (map snd ?sl) = int (length (filter (\<lambda>r. outcome_class r = 1) df))" .
  have m: "map_of ?sl (Str (launch_site r)) =
             Some (int (length (filter (\<lambda>q. launch_site q = launch_site r \<and> outcome_class q = 1) df)))"
    if "r \<in> set df" for r
  proof -
    have "sum_list (map snd (filter (\<lambda>p. fst p = Str (launch_site r)) ?prs))
            = sum_list (map outcome_class (filter (\<lambda>q. launch_site q = launch_site r) df))"
      by (simp add: filter_map comp_def)
    also have "\<dots> = int (length (filter (\<lambda>q. launch_site q = launch_site r \<and> outcome_class q = 1) df))"
      by (rule binary_sum_count [OF assms])
    finally show ?thesis using that
      by (simp add: map_of_fold_bump image_image)
  qed
  show ?thesis
    unfolding update_pie_all
    by (intro exI conjI ballI, rule refl) (simp_all only: pie_slices_all [OF assms] d k t m)
qed

theorem pie_all_sites_sums_successes_witness:
  "binary_class spec_df \<and> (\<exists>fig. update_pie Before_2_0 spec_df ''ALL'' = Inr fig
     \<and> map_of (pie_slices fig) (Str ''SiteA'') = Some 1
     \<and> map_of (pie_slices fig) (Str ''SiteB'') = Some 1
     \<and> sum_list (map snd (pie_slices fig)) = 2)"
proof -
  have b: "binary_class spec_df"
    by (simp add: binary_class_def spec_df_def sample_simps)
  have "\<exists>fig. update_pie Before_2_0 spec_df ''ALL'' = Inr fig
     \<and> map_of (pie_slices fig) (Str ''SiteA'') = Some 1
     \<and> map_of (pie_slices fig) (Str ''SiteB'') = Some 1
     \<and> sum_list (map snd (pie_slices fig)) = 2"
    using pie_all_sites_sums_successes [OF b, of Before_2_0]
    by (auto simp: spec_df_def sample_simps)
  with b show ?thesis by (rule conjI)
qed

lemma sum_list_map_sort_key:
  "sum_list (map (h :: 'a \<Rightarrow> int) (sort_key f xs)) = sum_list (map h xs)"
proof -
  have "mset (map h (sort_key f xs)) = mset (map h xs)" by simp
  then show ?thesis by (metis sum_mset_sum_list)
qed

lemma filter_eq_distinct:
  "distinct xs \<Longrightarrow> filter (\<lambda>v. v = a) xs = (if a \<in> set xs then [a] else [])"
  by (induction xs) auto

lemma sum_filter_map_sort:
  "sum_list (map snd (filter (\<lambda>p. fst p = k) (map (g :: 'a \<Rightarrow> 'b \<times> int) (sort_key f xs))))
     = sum_list (map (\<lambda>p. snd (g p)) (filter (\<lambda>p. fst (g p) = k) xs))"
  by (simp add: filter_map comp_def filter_sort sum_list_map_sort_key)

lemma renamed_outcome:
  "renamed [(Num 0, Str ''Failure''), (Num 1, Str ''Success'')] (Num v)
     = (if v = 0 then Str ''Failure'' else if v = 1 then Str ''Success'' else Num v)"
  by (simp add: renamed_def)

lemma renamed_eq_Success:
  "(renamed [(Num 0, Str ''Failure''), (Num 1, Str ''Success'')] (Num v) = Str ''Success'') = (v = 1)"
  by (simp add: renamed_outcome)

lemma renamed_eq_Failure:
  "(renamed [(Num 0, Str ''Failure''), (Num 1, Str ''Success'')] (Num v) = Str ''Failure'') = (v = 0)"
  by (simp add: renamed_outcome)

lemma in_image_conv: "(y \<in> f ` A) = (\<exists>v \<in> A. f v = y)"
  by auto

lemma label_present:
  "(Str ''Success'' \<in> renamed [(Num 0, Str ''Failure''), (Num 1, Str ''Success'')] ` Num ` set cs)
     = (1 \<in> set cs)"
  "(Str ''Failure'' \<in> renamed [(Num 0, Str ''Failure''), (Num 1, Str ''Success'')] ` Num ` set cs)
     = (0 \<in> set cs)"
proof -
  let ?d = "[(Num 0, Str ''Failure''), (Num 1, Str ''Success'')]"
  have "(Str ''Success'' \<in> renamed ?d ` Num ` set cs)
          = (\<exists>v \<in> set cs. renamed ?d (Num v) = Str ''Success'')"
    by (simp only: image_image in_image_conv)
  then show "(Str ''Success'' \<in> renamed ?d ` Num ` set cs) = (1 \<in> set cs)"
    by (simp add: renamed_eq_Success)
  have "(Str ''Failure'' \<in> renamed ?d ` Num ` set cs)
          = (\<exists>v \<in> set cs. renamed ?d (Num v) = Str ''Failure'')"
    by (simp only: image_image in_image_conv)
  then show "(Str ''Failure'' \<in> renamed ?d ` Num ` set cs) = (0 \<in> set cs)"
    by (simp add: renamed_eq_Failure)
qed

lemma update_pie_site_before:
  assumes "s \<noteq> ''ALL''"
  shows "update_pie Before_2_0 df s =
     Inr \<lparr>labels = map fst (s_entries (rename_index [(Num 0, Str ''Failure''), (Num 1, Str ''Success'')]
                       (value_counts Before_2_0 ''class'' (map outcome_class (filter (\<lambda>r. launch_site r = s) df))))),
          vals = map (\<lambda>p. Num (snd p)) (s_entries (rename_index [(Num 0, Str ''Failure''), (Num 1, Str ''Success'')]
                       (value_counts Before_2_0 ''class'' (map outcome_class (filter (\<lambda>r. launch_site r = s) df))))),
          pie_title = ''Launch Outcomes for '' @ s\<rparr>"
  using assms
  by (simp add: update_pie_def px_pie_def Let_def rename_columns_def reset_index_def
      rename_index_def value_counts_def case_prod_beta renamed_def)

lemma pie_groups_entries:
  "pie_groups \<lparr>labels = map fst e, vals = map (\<lambda>p. Num (snd p)) e, pie_title = t\<rparr>
     = fold (\<lambda>p. bump (fst p) (snd p)) e []"
proof -
  have "zip (map fst e) (map (\<lambda>p. Num (snd p)) e) = map (\<lambda>p. (fst p, Num (snd p))) e"
    by (induction e) auto
  then show ?thesis
    by (simp only: pie_groups_def pie_figure.simps fold_add_row_Num)
qed

lemma pie_slices_entries:
  "list_all (\<lambda>p. 0 \<le> snd p) e \<Longrightarrow>
     pie_slices \<lparr>labels = map fst e, vals = map (\<lambda>p. Num (snd p)) e, pie_title = t\<rparr>
       = fold (\<lambda>p. bump (fst p) (snd p)) e []"
  by (simp only: pie_slices_def pie_groups_entries slices_of_nonneg_rows)

lemma entries_nonneg:
  "list_all (\<lambda>p. 0 \<le> snd p) (s_entries (rename_index d (value_counts api name cs)))"
  by (simp add: rename_index_def value_counts_def list_all_iff case_prod_beta)

lemma site_outcome_slices:
  fixes df :: dataframe and s :: string
  defines "cs \<equiv> map outcome_class (filter (\<lambda>r. launch_site r = s) df)"
  defines "e \<equiv> s_entries (rename_index [(Num 0, Str ''Failure''), (Num 1, Str ''Success'')]
                       (value_counts Before_2_0 ''class'' cs))"
  shows "fst ` set e = renamed [(Num 0, Str ''Failure''), (Num 1, Str ''Success'')] ` Num ` set cs"
    and "sum_list (map snd (filter (\<lambda>p. fst p = Str ''Success'') e))
           = (if 1 \<in> set cs then int (count_list cs 1) else 0)"
    and "sum_list (map snd (filter (\<lambda>p. fst p = Str ''Failure'') e))
           = (if 0 \<in> set cs then int (count_list cs 0) else 0)"
proof -
  let ?d = "[(Num 0, Str ''Failure''), (Num 1, Str ''Success'')]"
  let ?g = "\<lambda>(i, c). (renamed ?d i, c :: int)"
  let ?e0 = "map (\<lambda>v. (Num v, int (count_list cs v))) (unique cs)"
  have e: "e = map ?g (sort_key (\<lambda>(v, c). - c) ?e0)"
    by (simp add: e_def rename_index_def value_counts_def)
  show "fst ` set e = renamed ?d ` Num ` set cs"
    by (force simp: e set_unique)
  have val: "sum_list (map snd (filter (\<lambda>p. fst p = k) e))
      = sum_list (map (\<lambda>v. int (count_list cs v)) (filter (\<lambda>v. renamed ?d (Num v) = k) (unique cs)))" for k
    unfolding e sum_filter_map_sort by (simp add: filter_map comp_def)
  show "sum_list (map snd (filter (\<lambda>p. fst p = Str ''Success'') e))
           = (if 1 \<in> set cs then int (count_list cs 1) else 0)"
    unfolding val renamed_eq_Success by (simp add: filter_eq_distinct [OF distinct_unique] set_unique)
  show "sum_list (map snd (filter (\<lambda>p. fst p = Str ''Failure'') e))
           = (if 0 \<in> set cs then int (count_list cs 0) else 0)"
    unfolding val renamed_eq_Failure by (simp add: filter_eq_distinct [OF distinct_unique] set_unique)
qed

lemma count_site_class:
  "count_list (map outcome_class (filter (\<lambda>r. launch_site r = s) df)) v
     = length (filter (\<lambda>r. launch_site r = s \<and> outcome_class r = v) df)"
  by (induction df) auto

text \<open>
  With the column naming of pandas before 2.0 the relabelling does what it is written for: on a
  dataset whose class column holds only 0 and 1, the pie's labels for a concrete site are
  exactly those of \<open>Success\<close> and \<open>Failure\<close> that occur among the site's records, the
  \<open>Success\<close> slice counts the site's records with class 1 and the \<open>Failure\<close> slice those
  with class 0.
\<close>

lemma pie_single_site_outcomes:
  assumes "binary_class df" and "s \<noteq> ''ALL''"
  shows "\<exists>fig. update_pie Before_2_0 df s = Inr fig
     \<and> distinct (map fst (pie_slices fig))
     \<and> fst ` set (pie_slices fig) =
         (\<lambda>r. if outcome_class r = 1 then Str ''Success'' else Str ''Failure'')
           ` {r \<in> set df. launch_site r = s}
     \<and> map_of (pie_slices fig) (Str ''Success'') =
         (if \<exists>r \<in> set df. launch_site r = s \<and> outcome_class r = 1
          then Some (int (length (filter (\<lambda>r. launch_site r = s \<and> outcome_class r = 1) df)))
          else None)
     \<and> map_of (pie_slices fig) (Str ''Failure'') =
         (if \<exists>r \<in> set df. launch_site r = s \<and> outcome_class r = 0
          then Some (int (length (filter (\<lambda>r. launch_site r = s \<and> outcome_class r = 0) df)))
          else None)"
proof -
  let ?d = "[(Num 0, Str ''Failure''), (Num 1, Str ''Success'')]"
  let ?cs = "map outcome_class (filter (\<lambda>r. launch_site r = s) df)"
  let ?e = "s_entries (rename_index ?d (value_counts Before_2_0 ''class'' ?cs))"
  let ?sl = "fold (\<lambda>p. bump (fst p) (snd p)) ?e []"
  note so = site_outcome_slices [where df = df and s = s]
  have bin: "\<forall>r \<in> set df. outcome_class r = 0 \<or> outcome_class r = 1"
    using assms(1) by (simp add: binary_class_def list_all_iff)
  have d: "distinct (map fst ?sl)" by (rule distinct_fold_bump) simp
  have k: "fst ` set ?sl = (\<lambda>r. if outcome_class r = 1 then Str ''Success'' else Str ''Failure'')
           ` {r \<in> set df. launch_site r = s}"
  proof -
    have "set ?cs = outcome_class ` {r \<in> set df. launch_site r = s}"
      by auto
    then have "renamed ?d ` Num ` set ?cs
        = (\<lambda>r. renamed ?d (Num (outcome_class r))) ` {r \<in> set df. launch_site r = s}"
      by (simp only: image_image)
    also have "\<dots> = (\<lambda>r. if outcome_class r = 1 then Str ''Success'' else Str ''Failure'')
           ` {r \<in> set df. launch_site r = s}"
      by (rule image_cong) (use bin in \<open>auto simp: renamed_outcome\<close>)
    finally show ?thesis
      by (simp only: keys_fold_bump so(1) list.set image_empty Un_empty_left)
  qed
  have m1: "(1 \<in> set ?cs) = (\<exists>r \<in> set df. launch_site r = s \<and> outcome_class r = 1)"
    by auto
  have m0: "(0 \<in> set ?cs) = (\<exists>r \<in> set df. launch_site r = s \<and> outcome_class r = 0)"
    by auto
  have k1: "(Str ''Success'' \<in> fst ` set ?e) = (1 \<in> set ?cs)"
    unfolding so(1) by (rule label_present)
  have k0: "(Str ''Failure'' \<in> fst ` set ?e) = (0 \<in> set ?cs)"
    unfolding so(1) by (rule label_present)
  have v1: "map_of ?sl (Str ''Success'') =
         (if \<exists>r \<in> set df. launch_site r = s \<and> outcome_class r = 1
          then Some (int (length (filter (\<lambda>r. launch_site r = s \<and> outcome_class r = 1) df)))
          else None)"
    unfolding map_of_fold_bump so(2) using k1 m1 by (simp add: count_site_class)
  have v0: "map_of ?sl (Str ''Failure'') =
         (if \<exists>r \<in> set df. launch_site r = s \<and> outcome_class r = 0
          then Some (int (length (filter (\<lambda>r. launch_site r = s \<and> outcome_class r = 0) df)))
          else None)"
    unfolding map_of_fold_bump so(3) using k0 m0 by (simp add: count_site_class)
  show ?thesis
    unfolding update_pie_site_before [OF assms(2)]
    by (intro exI conjI, rule refl) (simp_all only: pie_slices_entries [OF entries_nonneg] d k v1 v0)
qed

lemma pie_single_site_outcomes_example:
  "binary_class sample_df \<and> ''SiteA'' \<noteq> ''ALL''
     \<and> (\<exists>fig. update_pie Before_2_0 sample_df ''SiteA'' = Inr fig
          \<and> map_of (pie_slices fig) (Str ''Success'') = Some 2
          \<and> map_of (pie_slices fig) (Str ''Failure'') = Some 1)"
proof -
  have b: "binary_class sample_df"
    by (simp add: binary_class_def sample_df_def sample_simps)
  have n: "''SiteA'' \<noteq> ''ALL''" by simp
  have "\<exists>fig. update_pie Before_2_0 sample_df ''SiteA'' = Inr fig
          \<and> map_of (pie_slices fig) (Str ''Success'') = Some 2
          \<and> map_of (pie_slices fig) (Str ''Failure'') = Some 1"
    using pie_single_site_outcomes [OF b n]
    by (auto simp: sample_df_def sample_simps)
  with b n show ?thesis by blast
qed

text \<open>
  Under the naming of pandas 2.0 and later \<^verbatim>\<open>reset_index\<close> yields the columns
  \<^verbatim>\<open>class\<close> and \<^verbatim>\<open>count\<close>; the rename turns them into \<^verbatim>\<open>Count\<close> and \<^verbatim>\<open>count\<close>, so
  the frame handed to \<^verbatim>\<open>px.pie\<close> has no column \<^verbatim>\<open>Outcome\<close> and the concrete-site branch
  ends in the library's error, for every site and every dataset.
\<close>

lemma update_pie_site_since:
  "s \<noteq> ''ALL'' \<Longrightarrow> update_pie Since_2_0 df s = Inl ValueError"
  by (simp add: update_pie_def px_pie_def Let_def rename_columns_def reset_index_def
      rename_index_def value_counts_def renamed_def)

text \<open>
  C2. The relabelled counts of a concrete site are what the callback is written to return, but
  with pandas 2.0 or later it does not return them: for site \<open>SiteA\<close> of the sample dataset,
  whose records have the classes 1, 0, 1 (so the pie should read \<open>Success\<close> 2, \<open>Failure\<close> 1),
  the callback ends in \<^verbatim>\<open>ValueError\<close>.
\<close>

theorem pie_single_site_raises:
  "''SiteA'' \<noteq> ''ALL'' \<and> binary_class sample_df
     \<and> map outcome_class (filter (\<lambda>r. launch_site r = ''SiteA'') sample_df) = [1, 0, 1]
     \<and> update_pie Since_2_0 sample_df ''SiteA'' = Inl ValueError"
  by (simp add: update_pie_site_since binary_class_def sample_df_def sample_simps)

section \<open>Degenerate payload ranges\<close>

text \<open>
  The summary of a figure that the pie callback returns is empty exactly when the selection
  matches no record (dataset with classes 0 and 1).
\<close>

lemma update_pie_before_total: "\<exists>fig. update_pie Before_2_0 df s = Inr fig"
  by (cases "s = ''ALL''") (simp_all add: update_pie_all update_pie_site_before)

lemma empty_iff_same_set: "set xs = set ys \<Longrightarrow> (xs = []) = (ys = [])"
  by (metis set_empty)

lemma empty_iff_same_keys: "f ` set xs = g ` set ys \<Longrightarrow> (xs = []) = (ys = [])"
  by (metis image_is_empty set_empty)

lemma fold_bump_empty_iff:
  "(fold (\<lambda>p. bump (fst p) (snd p)) prs [] = []) = (prs = [])"
  by (rule empty_iff_same_keys [where f = fst and g = fst]) (simp add: keys_fold_bump)

lemma entries_empty_iff:
  "(s_entries (rename_index d (value_counts api name cs)) = []) = (cs = [])"
proof -
  have "(unique cs = []) = (cs = [])"
    by (rule empty_iff_same_set) (rule set_unique)
  then show ?thesis
    by (simp add: rename_index_def value_counts_def empty_iff_same_set [OF set_sort])
qed

lemma pie_empty_iff:
  assumes bin: "binary_class df" and fig: "update_pie api df s = Inr fig"
  shows "(pie_slices fig = []) = (\<not> (\<exists>r \<in> set df. s = ''ALL'' \<or> launch_site r = s))"
proof (cases "s = ''ALL''")
  case True
  from fig have f: "fig = \<lparr>labels = map (\<lambda>r. Str (launch_site r)) df,
          vals = map (\<lambda>r. Num (outcome_class r)) df,
          pie_title = ''Total Successful Launches by Site''\<rparr>"
    unfolding True update_pie_all by simp
  have "pie_slices fig
      = fold (\<lambda>p. bump (fst p) (snd p)) (map (\<lambda>r. (Str (launch_site r), outcome_class r)) df) []"
    unfolding f by (rule pie_slices_all [OF bin])
  then have "(pie_slices fig = []) = (df = [])"
    by (simp only: fold_bump_empty_iff map_is_Nil_conv)
  also have "\<dots> = (\<not> (\<exists>r \<in> set df. s = ''ALL'' \<or> launch_site r = s))"
    using True by (cases df) auto
  finally show ?thesis .
next
  case False
  show ?thesis
  proof (cases api)
    case Since_2_0
    with fig False show ?thesis
      by (simp add: update_pie_site_since)
  next
    case Before_2_0
    let ?cs = "map outcome_class (filter (\<lambda>r. launch_site r = s) df)"
    let ?e = "s_entries (rename_index [(Num 0, Str ''Failure''), (Num 1, Str ''Success'')]
                (value_counts Before_2_0 ''class'' ?cs))"
    from fig have f: "fig = \<lparr>labels = map fst ?e, vals = map (\<lambda>p. Num (snd p)) ?e,
            pie_title = ''Launch Outcomes for '' @ s\<rparr>"
      unfolding Before_2_0 update_pie_site_before [OF False] by simp
    have "pie_slices fig = fold (\<lambda>p. bump (fst p) (snd p)) ?e []"
      unfolding f by (rule pie_slices_entries [OF entries_nonneg])
    then have "(pie_slices fig = []) = (?cs = [])"
      by (simp only: fold_bump_empty_iff entries_empty_iff)
    also have "\<dots> = (\<not> (\<exists>r \<in> set df. launch_site r = s))"
      by (simp add: filter_empty_conv)
    finally show ?thesis using False by simp
  qed
qed

text \<open>
  C5, as the program behaves. On a dataset with classes 0 and 1 and a range with \<open>lo > hi\<close>,
  the scatter callback returns, without error, a figure without points. The pie callback is
  not given the payload range: its result is the same for every range; for all sites it is a
  figure; and whenever it is a figure, the summary is empty exactly when the selection matches
  no record, whatever the range.
\<close>

theorem degenerate_range_scatter_empty:
  assumes "hi < lo" and "binary_class df"
  shows "update_scatter df s [lo, hi] =
           Inr \<lparr>points = [],
                scatter_title = (if s = ''ALL''
                  then ''Correlation between Payload and Success for All Sites''
                  else ''Correlation between Payload and Success for '' @ s)\<rparr>
     \<and> (\<forall>r'. run_callback api df Success_pie_chart \<lparr>selected_site = s, payload_range = [lo, hi]\<rparr>
               = run_callback api df Success_pie_chart \<lparr>selected_site = s, payload_range = r'\<rparr>)
     \<and> (\<exists>fig. update_pie api df ''ALL'' = Inr fig)
     \<and> (\<forall>fig. update_pie api df s = Inr fig \<longrightarrow>
           (pie_slices fig = []) = (\<not> (\<exists>r \<in> set df. s = ''ALL'' \<or> launch_site r = s)))"
proof -
  have "filter (\<lambda>r. lo \<le> payload_mass r \<and> payload_mass r \<le> hi \<and>
                          (s = ''ALL'' \<or> launch_site r = s)) df = []"
    using assms(1) by (auto simp: filter_empty_conv)
  then have a: "update_scatter df s [lo, hi] =
           Inr \<lparr>points = [],
                scatter_title = (if s = ''ALL''
                  then ''Correlation between Payload and Success for All Sites''
                  else ''Correlation between Payload and Success for '' @ s)\<rparr>"
    by (simp add: update_scatter_pair px_scatter_def)
  have b: "\<forall>r'. run_callback api df Success_pie_chart \<lparr>selected_site = s, payload_range = [lo, hi]\<rparr>
               = run_callback api df Success_pie_chart \<lparr>selected_site = s, payload_range = r'\<rparr>"
    by (simp add: run_callback_def)
  have c: "\<exists>fig. update_pie api df ''ALL'' = Inr fig"
    by (simp add: update_pie_all)
  have d: "\<forall>fig. update_pie api df s = Inr fig \<longrightarrow>
           (pie_slices fig = []) = (\<not> (\<exists>r \<in> set df. s = ''ALL'' \<or> launch_site r = s))"
    by (intro allI impI) (rule pie_empty_iff [OF assms(2)])
  show ?thesis
    by (rule conjI, rule a, rule conjI, rule b, rule conjI, rule c, rule d)
qed

theorem degenerate_range_scatter_empty_witness:
  "(500::real) < 5000 \<and> binary_class spec_df
     \<and> update_scatter spec_df ''SiteA'' [5000, 500] =
           Inr \<lparr>points = [], scatter_title = ''Correlation between Payload and Success for SiteA''\<rparr>
     \<and> (\<exists>fig. update_pie Before_2_0 spec_df ''SiteA'' = Inr fig \<and> pie_slices fig \<noteq> [])"
proof -
  have h: "(500::real) < 5000" by simp
  have b: "binary_class spec_df"
    by (simp add: binary_class_def spec_df_def sample_simps)
  have r: "\<exists>r \<in> set spec_df. ''SiteA'' = ''ALL'' \<or> launch_site r = ''SiteA''"
    by (simp add: spec_df_def sample_simps)
  from update_pie_before_total obtain fig
    where f: "update_pie Before_2_0 spec_df ''SiteA'' = Inr fig" ..
  note t = degenerate_range_scatter_empty [OF h b, of "''SiteA''" Before_2_0]
  from t have s: "update_scatter spec_df ''SiteA'' [5000, 500] =
           Inr \<lparr>points = [], scatter_title = ''Correlation between Payload and Success for SiteA''\<rparr>"
    by simp
  from t f r have "pie_slices fig \<noteq> []" by blast
  with f have e: "\<exists>fig. update_pie Before_2_0 spec_df ''SiteA'' = Inr fig \<and> pie_slices fig \<noteq> []"
    by blast
  show ?thesis
    by (rule conjI, rule h, rule conjI, rule b, rule conjI, rule s, rule e)
qed

text \<open>
  C5, as stated, fails: on the three-record dataset with all sites selected and the range
  \<open>[5000, 500]\<close>, the pie summary still has the two slices of the dataset.
\<close>

theorem degenerate_range_pie_counterexample:
  "(500::real) < 5000
     \<and> run_callback Before_2_0 spec_df Success_pie_chart
          \<lparr>selected_site = ''ALL'', payload_range = [5000, 500]\<rparr>
         = Pie_figure (Inr \<lparr>labels = [Str ''SiteA'', Str ''SiteA'', Str ''SiteB''],
                            vals = [Num 1, Num 0, Num 1],
                            pie_title = ''Total Successful Launches by Site''\<rparr>)
     \<and> pie_slices \<lparr>labels = [Str ''SiteA'', Str ''SiteA'', Str ''SiteB''],
                    vals = [Num 1, Num 0, Num 1],
                    pie_title = ''Total Successful Launches by Site''\<rparr>
         = [(Str ''SiteA'', 1), (Str ''SiteB'', 1)]"
  by (simp add: run_callback_def update_pie_all spec_df_def sample_simps pie_slices_def
      pie_groups_def add_row_def)

section \<open>Properties of the loader and the layout\<close>

text \<open>Whatever the file system holds, the first thing the module does is test the path.\<close>

lemma main_checks_path_first: "\<exists>rest. fst (main fs) = Path_exists CSV_PATH # rest"
  by (cases "fs CSV_PATH") (simp_all add: main_def)

text \<open>
  C6. If the input file is missing, the process ends with \<^verbatim>\<open>SystemExit\<close> carrying a message
  that quotes the path, exit status 1; the only effect performed is the existence test, so
  nothing is loaded and no server is started.
\<close>

theorem missing_file_exits:
  assumes "fs CSV_PATH = None"
  shows "main fs = ([Path_exists CSV_PATH],
                    SystemExit (''ERROR: '' @ [CHR 0x27] @ CSV_PATH @ [CHR 0x27] @
                                '' not found in the current folder.''))
     \<and> exit_status (snd (main fs)) = Some 1
     \<and> (\<forall>a. snd (main fs) \<noteq> Running a)
     \<and> (\<forall>p. Read_csv p \<notin> set (fst (main fs)))
     \<and> (\<forall>h p. App_run h p \<notin> set (fst (main fs)))
     \<and> (\<forall>fs'. \<exists>rest. fst (main fs') = Path_exists CSV_PATH # rest)"
  using assms main_checks_path_first
  by (simp add: main_def exit_status_def)

theorem missing_file_exits_witness:
  "(Map.empty :: string \<rightharpoonup> dataframe) CSV_PATH = None
     \<and> main Map.empty = ([Path_exists ''spacex_launch_dash.csv''],
                    SystemExit (''ERROR: '' @ [CHR 0x27] @ ''spacex_launch_dash.csv'' @ [CHR 0x27] @
                                '' not found in the current folder.''))
     \<and> exit_status (snd (main Map.empty)) = Some 1"
proof -
  have h: "(Map.empty :: string \<rightharpoonup> dataframe) CSV_PATH = None" by simp
  from missing_file_exits [OF h] have
    "main Map.empty = ([Path_exists CSV_PATH],
                    SystemExit (''ERROR: '' @ [CHR 0x27] @ CSV_PATH @ [CHR 0x27] @
                                '' not found in the current folder.''))"
    and "exit_status (snd (main Map.empty)) = Some 1"
    by blast+
  with h show ?thesis by (simp add: CSV_PATH_def)
qed

text \<open>On a column with at least one row the loader's folds are the minimum and the maximum.\<close>

lemma col_min_Min: "xs \<noteq> [] \<Longrightarrow> col_min xs = Some (Min (set xs))"
  by (cases xs) (simp_all add: col_min_def Min.set_eq_fold [symmetric])

lemma col_max_Max: "xs \<noteq> [] \<Longrightarrow> col_max xs = Some (Max (set xs))"
  by (cases xs) (simp_all add: col_max_def Max.set_eq_fold [symmetric])

text \<open>
  C8. When the file is present and holds at least one record, the loader's \<open>pmin\<close> and
  \<open>pmax\<close> are the least and the greatest payload mass of the dataset, and the initial value of
  the payload slider is the pair of them.
\<close>

theorem default_range_is_global_min_max:
  assumes "fs CSV_PATH = Some df" and "df \<noteq> []"
  shows "\<exists>a. snd (main fs) = Running a
     \<and> app_df a = df
     \<and> pmin a = Some (Min (payload_mass ` set df))
     \<and> pmax a = Some (Max (payload_mass ` set df))
     \<and> slider_value (payload_slider a) = [pmin a, pmax a]"
proof -
  from assms(2) have ne: "map payload_mass df \<noteq> []" by simp
  have "snd (main fs) = Running (build_app df)"
    using assms(1) by (simp add: main_def)
  then show ?thesis
    by (simp add: build_app_def Let_def col_min_Min [OF ne] col_max_Max [OF ne])
qed

theorem default_range_is_global_min_max_witness:
  "[CSV_PATH \<mapsto> sample_df] CSV_PATH = Some sample_df \<and> sample_df \<noteq> []
     \<and> (\<exists>a. snd (main [CSV_PATH \<mapsto> sample_df]) = Running a
           \<and> slider_value (payload_slider a) = [Some 100, Some 6000])"
proof -
  have h1: "[CSV_PATH \<mapsto> sample_df] CSV_PATH = Some sample_df" by simp
  have h2: "sample_df \<noteq> []" by (simp add: sample_df_def)
  have "\<exists>a. snd (main [CSV_PATH \<mapsto> sample_df]) = Running a
           \<and> slider_value (payload_slider a) = [Some 100, Some 6000]"
    using default_range_is_global_min_max [of "[CSV_PATH \<mapsto> sample_df]" sample_df, OF h1 h2]
    by (auto simp: sample_df_def sample_simps)
  with h1 h2 show ?thesis by blast
qed

text \<open>
  C10. The options of the site dropdown are the entry labelled \<open>All Sites\<close> with value
  \<open>ALL\<close>, followed by one entry per launch site of the dataset, each once, in ascending order;
  the dropdown starts at \<open>ALL\<close>.
\<close>

theorem site_dropdown_options:
  "\<exists>sites. dropdown_options (site_dropdown (build_app df))
              = (''All Sites'', ''ALL'') # map (\<lambda>s. (s, s)) sites
     \<and> sorted sites \<and> distinct sites \<and> set sites = launch_site ` set df
     \<and> dropdown_value (site_dropdown (build_app df)) = ''ALL''"
  by (rule exI [of _ "sort (unique (map launch_site df))"])
     (simp add: build_app_def Let_def site_options_def set_unique distinct_unique)

text \<open>An instance: sites are listed in sorted order, not in order of appearance.\<close>

lemma site_options_example:
  "site_options [rec_b1, rec_a1, rec_a2]
     = [(''All Sites'', ''ALL''), (''SiteA'', ''SiteA''), (''SiteB'', ''SiteB'')]"
  by (simp add: site_options_def unique_def sample_simps)

section \<open>Properties of the callback wiring\<close>

text \<open>
  C9. The pie callback's figure does not change when only the payload range changes; a change
  of the payload slider triggers the scatter callback alone, a change of the site dropdown
  triggers both; and the scatter figure does depend on the range and on the site.
\<close>

theorem pie_ignores_payload_range:
  "run_callback api df Success_pie_chart (fs\<lparr>payload_range := r\<rparr>)
       = run_callback api df Success_pie_chart fs
     \<and> map fst (handle api df (Payload_slider_value, fs)) = [Success_payload_scatter_chart]
     \<and> map fst (handle api df (Site_dropdown_value, fs))
         = [Success_pie_chart, Success_payload_scatter_chart]
     \<and> update_scatter sample_df ''ALL'' [0, 10000] \<noteq> update_scatter sample_df ''ALL'' [0, 1000]
     \<and> update_scatter sample_df ''ALL'' [0, 10000] \<noteq> update_scatter sample_df ''SiteB'' [0, 10000]"
  by (simp add: run_callback_def handle_def triggered_def callback_inputs_def update_scatter_pair
      px_scatter_def sample_df_def sample_simps comp_def)

section \<open>Properties of the running server\<close>

text \<open>
  A store that extends another has all of its objects, unchanged, and the same dataset.
\<close>

lemma extends_refl: "extends st st"
  by (simp add: extends_def)

lemma extends_length: "extends st st' \<Longrightarrow> length (frames st) \<le> length (frames st')"
proof -
  assume "extends st st'"
  then have "length (take (length (frames st)) (frames st')) = length (frames st)"
    by (simp only: extends_def)
  then show ?thesis by simp
qed

lemma extends_trans: "extends st st1 \<Longrightarrow> extends st1 st2 \<Longrightarrow> extends st st2"
proof -
  assume a: "extends st st1" and b: "extends st1 st2"
  from a have le: "length (frames st) \<le> length (frames st1)" by (rule extends_length)
  from b have "take (length (frames st)) (take (length (frames st1)) (frames st2))
                 = take (length (frames st)) (frames st1)"
    by (simp only: extends_def)
  with le have "take (length (frames st)) (frames st2) = take (length (frames st)) (frames st1)"
    by (simp add: min_absorb1)
  with a b show ?thesis by (simp add: extends_def)
qed

lemma deref_extends: "extends st st' \<Longrightarrow> deref st a = Some fr \<Longrightarrow> deref st' a = Some fr"
proof -
  assume e: "extends st st'" and d: "deref st a = Some fr"
  from d have lt: "a < length (frames st)" and v: "frames st ! a = fr"
    by (auto simp: deref_def split: if_splits)
  from e have "take (length (frames st)) (frames st') ! a = frames st ! a"
    by (simp only: extends_def)
  with lt have "frames st' ! a = frames st ! a" by simp
  with lt v extends_length [OF e] show ?thesis by (simp add: deref_def)
qed

lemma dataset_extends: "extends st st' \<Longrightarrow> dataset st = Some df \<Longrightarrow> dataset st' = Some df"
proof -
  assume e: "extends st st'" and d: "dataset st = Some df"
  from e have "df_ref st' = df_ref st" by (simp add: extends_def)
  with deref_extends [OF e] d show ?thesis by (simp add: dataset_def)
qed

lemma getitem_Some:
  "deref st a = Some fr \<Longrightarrow>
     getitem keep a st = Some (length (frames st), st\<lparr>frames := frames st @ [filter keep fr]\<rparr>)"
  by (simp add: getitem_def)

lemma extends_new: "extends st (st\<lparr>frames := frames st @ xs\<rparr>)"
  by (simp add: extends_def)

lemma deref_new: "deref (st\<lparr>frames := frames st @ [x]\<rparr>) (length (frames st)) = Some x"
  by (simp add: deref_def)

text \<open>
  Each callback, run on a store whose \<open>df\<close> is bound to a dataset, returns what
  \<open>update_pie\<close> and \<open>update_scatter\<close> compute from that dataset and the arguments, and
  leaves a store that extends the one it started from: the frames it creates are new objects.
\<close>

lemma update_pie_st_pure:
  assumes "dataset st = Some df"
  shows "\<exists>st'. update_pie_st api s st = (update_pie api df s, st') \<and> extends st st'"
proof (cases "s = ''ALL''")
  case True
  with assms have "update_pie_st api s st = (update_pie api df s, st)"
    by (simp add: update_pie_st_def update_pie_def dataset_def)
  then show ?thesis using extends_refl by blast
next
  case False
  let ?st1 = "st\<lparr>frames := frames st @ [filter (\<lambda>r. launch_site r = s) df]\<rparr>"
  from assms have d: "deref st (df_ref st) = Some df" by (simp add: dataset_def)
  from False have "update_pie_st api s st = (update_pie api df s, ?st1)"
    by (simp add: update_pie_st_def update_pie_def Let_def getitem_Some [OF d] deref_new)
  then show ?thesis using extends_new by blast
qed

lemma update_scatter_st_pair:
  assumes "dataset st = Some df"
  shows "\<exists>st'. update_scatter_st s [lo, hi] st = (update_scatter df s [lo, hi], st')
           \<and> extends st st'"
proof -
  let ?m = "\<lambda>r. payload_mass r \<ge> lo \<and> payload_mass r \<le> hi"
  let ?st1 = "st\<lparr>frames := frames st @ [filter ?m df]\<rparr>"
  let ?st2 = "?st1\<lparr>frames := frames ?st1 @ [filter (\<lambda>r. launch_site r = s) (filter ?m df)]\<rparr>"
  from assms have d: "deref st (df_ref st) = Some df" by (simp add: dataset_def)
  have d1: "deref ?st1 (length (frames st)) = Some (filter ?m df)" by (rule deref_new)
  show ?thesis
  proof (cases "s = ''ALL''")
    case True
    then have "update_scatter_st s [lo, hi] st = (update_scatter df s [lo, hi], ?st1)"
      by (simp add: update_scatter_st_def update_scatter_def Let_def getitem_Some [OF d] d1)
    then show ?thesis using extends_new by blast
  next
    case False
    have d2: "deref ?st2 (length (frames ?st1)) = Some (filter (\<lambda>r. launch_site r = s) (filter ?m df))"
      by (rule deref_new)
    from False have "update_scatter_st s [lo, hi] st = (update_scatter df s [lo, hi], ?st2)"
      using d2
      by (simp add: update_scatter_st_def update_scatter_def Let_def getitem_Some [OF d]
          getitem_Some [OF d1])
    moreover have "extends st ?st2"
      by (rule extends_trans [OF extends_new extends_new])
    ultimately show ?thesis by blast
  qed
qed

lemma update_scatter_st_pure:
  assumes "dataset st = Some df"
  shows "\<exists>st'. update_scatter_st s rng st = (update_scatter df s rng, st') \<and> extends st st'"
proof (cases "\<exists>lo hi. rng = [lo, hi]")
  case True
  then obtain lo hi where "rng = [lo, hi]" by blast
  with update_scatter_st_pair [OF assms] show ?thesis by simp
next
  case False
  then have "update_scatter_st s rng st = (update_scatter df s rng, st)"
    by (auto simp: update_scatter_st_def update_scatter_def split: list.splits)
  then show ?thesis using extends_refl by blast
qed


lemma run_callback_st_pure:
  assumes "dataset st = Some df"
  shows "\<exists>st'. run_callback_st api out fs st = (run_callback api df out fs, st') \<and> extends st st'"
proof (cases out)
  case Success_pie_chart
  from update_pie_st_pure [OF assms] obtain st'
    where "update_pie_st api (selected_site fs) st = (update_pie api df (selected_site fs), st')"
      and "extends st st'" by blast
  with Success_pie_chart show ?thesis
    by (simp add: run_callback_st_def run_callback_def)
next
  case Success_payload_scatter_chart
  from update_scatter_st_pure [OF assms] obtain st'
    where "update_scatter_st (selected_site fs) (payload_range fs) st
             = (update_scatter df (selected_site fs) (payload_range fs), st')"
      and "extends st st'" by blast
  with Success_payload_scatter_chart show ?thesis
    by (simp add: run_callback_st_def run_callback_def)
qed

lemma run_callbacks_pure:
  "dataset st = Some df \<Longrightarrow>
     \<exists>st'. run_callbacks api outs fs st = (map (\<lambda>out. (out, run_callback api df out fs)) outs, st')
           \<and> extends st st'"
proof (induction outs arbitrary: st)
  case Nil
  then show ?case by (simp add: extends_refl)
next
  case (Cons out outs)
  from run_callback_st_pure [OF Cons.prems] obtain st1
    where r: "run_callback_st api out fs st = (run_callback api df out fs, st1)"
      and e1: "extends st st1" by blast
  from dataset_extends [OF e1 Cons.prems] have "dataset st1 = Some df" .
  from Cons.IH [OF this] obtain st2
    where rs: "run_callbacks api outs fs st1
                 = (map (\<lambda>out. (out, run_callback api df out fs)) outs, st2)"
      and e2: "extends st1 st2" by blast
  from r rs have "run_callbacks api (out # outs) fs st
      = (map (\<lambda>out. (out, run_callback api df out fs)) (out # outs), st2)"
    by simp
  with extends_trans [OF e1 e2] show ?case by blast
qed

text \<open>
  C7. The server answers every request of any sequence with the figures that \<open>update_pie\<close>
  and \<open>update_scatter\<close> compute from the dataset and that request's filter state, whatever
  was served before; so the same filter state always gets the same figures. Afterwards
  \<open>df\<close> is still bound to the same dataset and every object that was in the store is
  unchanged.
\<close>

theorem callbacks_pure:
  "dataset st = Some df \<Longrightarrow>
     \<exists>st'. serve api reqs st = (map (handle api df) reqs, st')
           \<and> dataset st' = Some df \<and> extends st st'"
proof (induction reqs arbitrary: st)
  case Nil
  then show ?case by (simp add: extends_refl)
next
  case (Cons req reqs)
  from run_callbacks_pure [OF Cons.prems] obtain st1
    where r: "run_callbacks api (triggered (fst req)) (snd req) st = (handle api df req, st1)"
      and e1: "extends st st1"
    unfolding handle_def by blast
  from dataset_extends [OF e1 Cons.prems] have d1: "dataset st1 = Some df" .
  from Cons.IH [OF d1] obtain st2
    where rs: "serve api reqs st1 = (map (handle api df) reqs, st2)"
      and d2: "dataset st2 = Some df" and e2: "extends st1 st2" by blast
  from r rs have "serve api (req # reqs) st = (map (handle api df) (req # reqs), st2)"
    by simp
  with d2 extends_trans [OF e1 e2] show ?case by blast
qed

theorem callbacks_pure_witness:
  "dataset (initial_store sample_df) = Some sample_df
     \<and> (\<exists>r st'. serve Before_2_0
            [(Site_dropdown_value, \<lparr>selected_site = ''SiteB'', payload_range = [0, 10000]\<rparr>),
             (Site_dropdown_value, \<lparr>selected_site = ''SiteB'', payload_range = [0, 10000]\<rparr>)]
            (initial_store sample_df) = ([r, r], st')
          \<and> dataset st' = Some sample_df)"
proof -
  have d: "dataset (initial_store sample_df) = Some sample_df"
    by (simp add: dataset_def initial_store_def deref_def)
  from callbacks_pure [OF d, of Before_2_0
      "[(Site_dropdown_value, \<lparr>selected_site = ''SiteB'', payload_range = [0, 10000]\<rparr>),
        (Site_dropdown_value, \<lparr>selected_site = ''SiteB'', payload_range = [0, 10000]\<rparr>)]"]
  have "\<exists>r st'. serve Before_2_0
            [(Site_dropdown_value, \<lparr>selected_site = ''SiteB'', payload_range = [0, 10000]\<rparr>),
             (Site_dropdown_value, \<lparr>selected_site = ''SiteB'', payload_range = [0, 10000]\<rparr>)]
            (initial_store sample_df) = ([r, r], st')
          \<and> dataset st' = Some sample_df"
    by auto
  with d show ?thesis by (rule conjI)
qed

end
